theory Spec2Isabelle
  imports Complex_Main "HOL-Library.AList"
begin

section \<open>Python values\<close>

text \<open>
  The values that reach the models of \<^verbatim>\<open>chatspec/types.py\<close>: parsed JSON (null, booleans,
  unbounded integers, floats, strings, lists, and string-keyed dicts as association lists
  read with \<open>map_of\<close>), instances of the pydantic models, the lazy iterator pydantic builds
  for an \<^verbatim>\<open>Iterable[...]\<close> field, and any other attribute of a class (a bound method, a
  class-level table), identified by its name only.
  A float is a finite number or one of the three non-finite values.
  An instance holds its class name, its \<^verbatim>\<open>__dict__\<close> and its \<^verbatim>\<open>model_fields_set\<close>.
\<close>

datatype pyfloat = Finite rat | PosInf | NegInf | NaN

datatype pyval =
    PNone
  | PBool bool
  | PInt int
  | PFloat pyfloat
  | PStr string
  | PList "pyval list"
  | PDict "(string \<times> pyval) list"
  | PModel model_inst
  | PValidatorIterator pyval
  | PAttr string
and model_inst =
    Instance (cname: string) (idict: "(string \<times> pyval) list") (fields_set: "string list")

section \<open>Type annotations and field declarations\<close>

text \<open>
  The annotations that occur in the source. A field of a \<^verbatim>\<open>BaseModel\<close> subclass is
  required (its \<^verbatim>\<open>FieldInfo.default\<close> is \<^verbatim>\<open>PydanticUndefined\<close>) or carries a default value;
  a key of a \<^verbatim>\<open>TypedDict\<close> is required or \<^verbatim>\<open>NotRequired\<close>.
\<close>

datatype dflt = PydanticUndefined | NotRequired | Default pyval

datatype ann =
    TAny | TStr | TInt | TFloat | TBool
  | TLiteral "string list"
  | TOptional ann
  | TUnion "ann list"
  | TList ann
  | TIterable ann
  | TDict ann
  | TTypedDict string "fld list"
  | TBaseModel
  | TModel string "fld list"
and fld = Fld (fname: string) (fann: ann) (fdefault: dflt)

fun model_fields :: "ann \<Rightarrow> fld list" where
  "model_fields (TModel n fs) = fs"
| "model_fields (TTypedDict n fs) = fs"
| "model_fields _ = []"

fun model_name :: "ann \<Rightarrow> string" where
  "model_name (TModel n fs) = n"
| "model_name (TTypedDict n fs) = n"
| "model_name _ = []"

definition field_names :: "ann \<Rightarrow> string list" where
  "field_names cls = map fname (model_fields cls)"

fun find_field :: "fld list \<Rightarrow> string \<Rightarrow> fld option" where
  "find_field [] k = None"
| "find_field (f # fs) k = (if fname f = k then Some f else find_field fs k)"

section \<open>Errors\<close>

text \<open>
  A pydantic \<^verbatim>\<open>ValidationError\<close> lists one line per failure: the path of the offending
  field and the kind of failure. \<open>Unmodelled\<close> marks the one outcome this development
  leaves open (see \<open>setattr\<close>).
\<close>

datatype loc_item = Key string | Index nat

type_synonym errs = "(loc_item list \<times> string) list"

datatype error =
    ValidationError errs
  | AttributeError string
  | ValueError string
  | Unmodelled string

definition at_loc :: "loc_item \<Rightarrow> errs \<Rightarrow> errs" where
  "at_loc k es = map (\<lambda>(loc, t). (k # loc, t)) es"

section \<open>Validation at construction\<close>

text \<open>
  The classes of the source declare fields only; what a constructor call does with them is
  pydantic's validation in its default configuration, which no class of the source changes
  (no \<^verbatim>\<open>model_config\<close>, no \<^verbatim>\<open>Field(...)\<close> constraint, no validator): lax mode, unknown keys
  ignored, defaults not validated, every failing field reported.
  Lax mode converts between the scalar types. The conversion of a string to a number or a
  boolean is the library's parser, taken here as a parameter.
\<close>

record lax =
  str_as_int :: "string \<Rightarrow> int option"
  str_as_float :: "string \<Rightarrow> pyfloat option"
  str_as_bool :: "string \<Rightarrow> bool option"

definition validate_str :: "pyval \<Rightarrow> errs + pyval" where
  "validate_str v = (case v of PStr s \<Rightarrow> Inr v | _ \<Rightarrow> Inl [([], ''string_type'')])"

definition validate_int :: "lax \<Rightarrow> pyval \<Rightarrow> errs + pyval" where
  "validate_int L v =
     (case v of
        PInt i \<Rightarrow> Inr v
      | PBool b \<Rightarrow> Inr (PInt (if b then 1 else 0))
      | PFloat f \<Rightarrow>
          (case f of
             Finite r \<Rightarrow>
               if of_int \<lfloor>r\<rfloor> = r then Inr (PInt \<lfloor>r\<rfloor>) else Inl [([], ''int_from_float'')]
           | _ \<Rightarrow> Inl [([], ''finite_number'')])
      | PStr s \<Rightarrow>
          (case str_as_int L s of
             Some i \<Rightarrow> Inr (PInt i)
           | None \<Rightarrow> Inl [([], ''int_parsing'')])
      | _ \<Rightarrow> Inl [([], ''int_type'')])"

text \<open>A float field has no finiteness constraint: infinities and NaN pass.\<close>

definition validate_float :: "lax \<Rightarrow> pyval \<Rightarrow> errs + pyval" where
  "validate_float L v =
     (case v of
        PFloat f \<Rightarrow> Inr v
      | PInt i \<Rightarrow> Inr (PFloat (Finite (of_int i)))
      | PBool b \<Rightarrow> Inr (PFloat (Finite (if b then 1 else 0)))
      | PStr s \<Rightarrow>
          (case str_as_float L s of
             Some f \<Rightarrow> Inr (PFloat f)
           | None \<Rightarrow> Inl [([], ''float_parsing'')])
      | _ \<Rightarrow> Inl [([], ''float_type'')])"

definition validate_bool :: "lax \<Rightarrow> pyval \<Rightarrow> errs + pyval" where
  "validate_bool L v =
     (case v of
        PBool b \<Rightarrow> Inr v
      | PInt i \<Rightarrow>
          if i = 0 then Inr (PBool False)
          else if i = 1 then Inr (PBool True)
          else Inl [([], ''bool_parsing'')]
      | PFloat f \<Rightarrow>
          if f = Finite 0 then Inr (PBool False)
          else if f = Finite 1 then Inr (PBool True)
          else Inl [([], ''bool_parsing'')]
      | PStr s \<Rightarrow>
          (case str_as_bool L s of
             Some b \<Rightarrow> Inr (PBool b)
           | None \<Rightarrow> Inl [([], ''bool_parsing'')])
      | _ \<Rightarrow> Inl [([], ''bool_type'')])"

definition validate_literal :: "string list \<Rightarrow> pyval \<Rightarrow> errs + pyval" where
  "validate_literal ls v =
     (case v of
        PStr s \<Rightarrow> if s \<in> set ls then Inr v else Inl [([], ''literal_error'')]
      | _ \<Rightarrow> Inl [([], ''literal_error'')])"

text \<open>
  An \<^verbatim>\<open>Iterable[T]\<close> field accepts whatever Python can iterate over and wraps it in an
  iterator that validates each item only when it is consumed: nothing about the items is
  checked at construction.
\<close>

fun is_iterable :: "pyval \<Rightarrow> bool" where
  "is_iterable (PStr _) = True"
| "is_iterable (PList _) = True"
| "is_iterable (PDict _) = True"
| "is_iterable (PModel _) = True"
| "is_iterable (PValidatorIterator _) = True"
| "is_iterable _ = False"

definition validate_iterable :: "pyval \<Rightarrow> errs + pyval" where
  "validate_iterable v =
     (if is_iterable v then Inr (PValidatorIterator v) else Inl [([], ''iterable_type'')])"

text \<open>
  A field annotated with \<^verbatim>\<open>BaseModel\<close> itself (\<^verbatim>\<open>usage\<close>) takes any model instance as it
  is; a dict is validated against \<^verbatim>\<open>BaseModel\<close>, which declares no field, so every key of
  the dict is an unknown key and is dropped.
\<close>

definition validate_base_model :: "pyval \<Rightarrow> errs + pyval" where
  "validate_base_model v =
     (case v of
        PModel i \<Rightarrow> Inr v
      | PDict d \<Rightarrow> Inr (PModel (Instance ''BaseModel'' [] []))
      | _ \<Rightarrow> Inl [([], ''model_type'')])"

type_synonym fields_acc = "errs \<times> (string \<times> pyval) list \<times> string list"

definition field_present :: "string \<Rightarrow> errs + pyval \<Rightarrow> fields_acc \<Rightarrow> fields_acc" where
  "field_present k r acc =
     (case acc of (es, d', s) \<Rightarrow>
        (case r of
           Inr w \<Rightarrow> (es, (k, w) # d', k # s)
         | Inl e \<Rightarrow> (at_loc (Key k) e @ es, d', s)))"

definition field_absent :: "string \<Rightarrow> dflt \<Rightarrow> fields_acc \<Rightarrow> fields_acc" where
  "field_absent k df acc =
     (case acc of (es, d', s) \<Rightarrow>
        (case df of
           Default dv \<Rightarrow> (es, (k, dv) # d', s)
         | NotRequired \<Rightarrow> (es, d', s)
         | PydanticUndefined \<Rightarrow> (([Key k], ''missing'') # es, d', s)))"

text \<open>
  \<open>validate_fields\<close> walks the declared fields in order: a supplied key is validated,
  stored and recorded as set; an absent key takes its default (not recorded as set) or is
  reported missing. Keys of the input that no field declares are never looked at.
  A union takes the first member that accepts the value; for the unions of the source
  (\<^verbatim>\<open>Union[str, Iterable[...]]\<close>, \<^verbatim>\<open>Union[str, Literal[...]]\<close>, the three content parts)
  this is also what pydantic's smart mode selects.
\<close>

function (sequential) validate :: "lax \<Rightarrow> ann \<Rightarrow> pyval \<Rightarrow> errs + pyval"
  and validate_items :: "lax \<Rightarrow> ann \<Rightarrow> nat \<Rightarrow> pyval list \<Rightarrow> errs \<times> pyval list"
  and validate_values :: "lax \<Rightarrow> ann \<Rightarrow> (string \<times> pyval) list \<Rightarrow> errs \<times> (string \<times> pyval) list"
  and validate_union :: "lax \<Rightarrow> ann list \<Rightarrow> pyval \<Rightarrow> errs + pyval"
  and validate_fields :: "lax \<Rightarrow> fld list \<Rightarrow> (string \<times> pyval) list \<Rightarrow> fields_acc"
where
  "validate L TAny v = Inr v"
| "validate L TStr v = validate_str v"
| "validate L TInt v = validate_int L v"
| "validate L TFloat v = validate_float L v"
| "validate L TBool v = validate_bool L v"
| "validate L (TLiteral ls) v = validate_literal ls v"
| "validate L (TOptional a) v = (if v = PNone then Inr PNone else validate L a v)"
| "validate L (TUnion as) v = validate_union L as v"
| "validate L (TList a) v =
     (case v of
        PList vs \<Rightarrow>
          (case validate_items L a 0 vs of
             ([], ws) \<Rightarrow> Inr (PList ws)
           | (es, _) \<Rightarrow> Inl es)
      | _ \<Rightarrow> Inl [([], ''list_type'')])"
| "validate L (TIterable a) v = validate_iterable v"
| "validate L (TDict a) v =
     (case v of
        PDict d \<Rightarrow>
          (case validate_values L a d of
             ([], d') \<Rightarrow> Inr (PDict d')
           | (es, _) \<Rightarrow> Inl es)
      | _ \<Rightarrow> Inl [([], ''dict_type'')])"
| "validate L (TTypedDict n fs) v =
     (case v of
        PDict d \<Rightarrow>
          (case validate_fields L fs d of
             ([], d', _) \<Rightarrow> Inr (PDict d')
           | (es, _) \<Rightarrow> Inl es)
      | _ \<Rightarrow> Inl [([], ''dict_type'')])"
| "validate L TBaseModel v = validate_base_model v"
| "validate L (TModel n fs) v =
     (case v of
        PModel i \<Rightarrow> if cname i = n then Inr v else Inl [([], ''model_type'')]
      | PDict d \<Rightarrow>
          (case validate_fields L fs d of
             ([], d', s) \<Rightarrow> Inr (PModel (Instance n d' s))
           | (es, _) \<Rightarrow> Inl es)
      | _ \<Rightarrow> Inl [([], ''model_type'')])"
| "validate_items L a n [] = ([], [])"
| "validate_items L a n (v # vs) =
     (case validate_items L a (Suc n) vs of (es, ws) \<Rightarrow>
        (case validate L a v of
           Inr w \<Rightarrow> (es, w # ws)
         | Inl e \<Rightarrow> (at_loc (Index n) e @ es, ws)))"
| "validate_values L a [] = ([], [])"
| "validate_values L a ((k, v) # kvs) =
     (case validate_values L a kvs of (es, ws) \<Rightarrow>
        (case validate L a v of
           Inr w \<Rightarrow> (es, (k, w) # ws)
         | Inl e \<Rightarrow> (at_loc (Key k) e @ es, ws)))"
| "validate_union L [] v = Inl [([], ''union_error'')]"
| "validate_union L [a] v = validate L a v"
| "validate_union L (a # as) v =
     (case validate L a v of
        Inr w \<Rightarrow> Inr w
      | Inl e \<Rightarrow>
          (case validate_union L as v of
             Inr w \<Rightarrow> Inr w
           | Inl es \<Rightarrow> Inl (e @ es)))"
| "validate_fields L [] d = ([], [], [])"
| "validate_fields L (Fld k a df # fs) d =
     (case map_of d k of
        Some v \<Rightarrow> field_present k (validate L a v) (validate_fields L fs d)
      | None \<Rightarrow> field_absent k df (validate_fields L fs d))"
  by pat_completeness auto

termination validate
  apply (relation "inv_image (less_than <*lex*> less_than)
    (case_sum
       (case_sum (\<lambda>(L, a, v). (size a, 0)) (\<lambda>(L, a, n, vs). (size a, Suc (length vs))))
       (case_sum (\<lambda>(L, a, kvs). (size a, Suc (length kvs)))
          (case_sum (\<lambda>(L, as, v). (size_list size as, 0))
                    (\<lambda>(L, fs, d). (size_list size fs, 0)))))")
                 apply (intro wf_inv_image wf_lex_prod wf_less_than)
                apply simp_all
  done

text \<open>
  Calling a model class with keyword arguments, \<^verbatim>\<open>M(**kwargs)\<close>: the fields are validated
  and the instance is built, or a \<^verbatim>\<open>ValidationError\<close> is raised.
\<close>

definition model_init :: "lax \<Rightarrow> ann \<Rightarrow> (string \<times> pyval) list \<Rightarrow> error + model_inst" where
  "model_init L cls kwargs =
     (case validate_fields L (model_fields cls) kwargs of
        ([], d, s) \<Rightarrow> Inr (Instance (model_name cls) d s)
      | (es, _, _) \<Rightarrow> Inl (ValidationError es))"

text \<open>
  Calling a \<^verbatim>\<open>TypedDict\<close> class builds a plain dict from the keyword arguments. The
  declared keys and their annotations exist for static type checkers only: nothing is
  looked at when the dict is built.
\<close>

definition typeddict_init :: "ann \<Rightarrow> (string \<times> pyval) list \<Rightarrow> error + pyval" where
  "typeddict_init cls kwargs = Inr (PDict kwargs)"

section \<open>The declarations of the source\<close>

subsection \<open>Tool and function calling (\<^verbatim>\<open>TypedDict\<close> classes)\<close>

definition FunctionParameters :: ann where
  "FunctionParameters = TDict TAny"

definition Function :: ann where
  "Function = TTypedDict ''Function''
     [Fld ''name'' TStr PydanticUndefined,
      Fld ''description'' TStr PydanticUndefined,
      Fld ''parameters'' FunctionParameters PydanticUndefined,
      Fld ''strict'' TBool NotRequired]"

definition Tool :: ann where
  "Tool = TTypedDict ''Tool''
     [Fld ''type'' (TLiteral [''function'']) PydanticUndefined,
      Fld ''function'' Function PydanticUndefined]"

definition FunctionCall :: ann where
  "FunctionCall = TTypedDict ''FunctionCall''
     [Fld ''name'' TStr PydanticUndefined,
      Fld ''arguments'' TStr PydanticUndefined]"

definition ToolCall :: ann where
  "ToolCall = TTypedDict ''ToolCall''
     [Fld ''id'' TStr PydanticUndefined,
      Fld ''function'' Function PydanticUndefined,
      Fld ''type'' (TLiteral [''function'']) PydanticUndefined]"

subsection \<open>Message content parts (\<^verbatim>\<open>TypedDict\<close> classes)\<close>

text \<open>
  The annotation of \<^verbatim>\<open>image_url\<close> and of \<^verbatim>\<open>input_audio\<close> is \<^verbatim>\<open>Dict[str, Any]\<close>; the
  inner \<^verbatim>\<open>TypedDict("ImageURL", ...)\<close> and \<^verbatim>\<open>TypedDict("InputAudio", ...)\<close> of the source are
  values assigned in the class body, not annotations, so \<^verbatim>\<open>url\<close>, \<^verbatim>\<open>detail\<close>, \<^verbatim>\<open>data\<close> and
  \<^verbatim>\<open>format\<close> are declared nowhere.
\<close>

definition MessageContentImagePart :: ann where
  "MessageContentImagePart = TTypedDict ''MessageContentImagePart''
     [Fld ''image_url'' (TDict TAny) PydanticUndefined,
      Fld ''type'' (TLiteral [''image_url'']) PydanticUndefined]"

definition MessageContentAudioPart :: ann where
  "MessageContentAudioPart = TTypedDict ''MessageContentAudioPart''
     [Fld ''input_audio'' (TDict TAny) PydanticUndefined,
      Fld ''type'' (TLiteral [''input_audio'']) PydanticUndefined]"

definition MessageContentTextPart :: ann where
  "MessageContentTextPart = TTypedDict ''MessageContentTextPart''
     [Fld ''text'' TStr PydanticUndefined,
      Fld ''type'' (TLiteral [''text'']) PydanticUndefined]"

definition MessageContentPart :: ann where
  "MessageContentPart =
     TUnion [MessageContentImagePart, MessageContentAudioPart, MessageContentTextPart]"

definition MessageContent :: ann where
  "MessageContent = TUnion [TStr, TIterable MessageContentPart]"

definition MessageTextContent :: ann where
  "MessageTextContent = TUnion [TStr, TIterable MessageContentTextPart]"

subsection \<open>Messages (\<^verbatim>\<open>TypedDict\<close> class)\<close>

definition MessageRole :: ann where
  "MessageRole = TLiteral [''assistant'', ''user'', ''system'', ''tool'', ''developer'']"

definition Message :: ann where
  "Message = TTypedDict ''Message''
     [Fld ''role'' MessageRole PydanticUndefined,
      Fld ''content'' MessageContent PydanticUndefined,
      Fld ''name'' TStr NotRequired,
      Fld ''function_call'' (TDict TAny) NotRequired,
      Fld ''tool_calls'' (TIterable (TDict TAny)) NotRequired,
      Fld ''tool_call_id'' TStr NotRequired]"

subsection \<open>Response types (pydantic models, all subclasses of \<^verbatim>\<open>Subscriptable\<close>)\<close>

definition TopLogprob :: ann where
  "TopLogprob = TModel ''TopLogprob''
     [Fld ''token'' TStr PydanticUndefined,
      Fld ''bytes'' (TOptional (TList TInt)) (Default PNone),
      Fld ''logprob'' TFloat PydanticUndefined]"

definition TokenLogprob :: ann where
  "TokenLogprob = TModel ''TokenLogprob''
     [Fld ''token'' TStr PydanticUndefined,
      Fld ''bytes'' (TOptional (TList TInt)) (Default PNone),
      Fld ''logprob'' TFloat PydanticUndefined,
      Fld ''top_logprobs'' (TList TopLogprob) PydanticUndefined]"

definition ChoiceLogprobs :: ann where
  "ChoiceLogprobs = TModel ''ChoiceLogprobs''
     [Fld ''content'' (TOptional (TList TokenLogprob)) (Default PNone),
      Fld ''refusal'' (TOptional (TList TokenLogprob)) (Default PNone)]"

definition CompletionFunction :: ann where
  "CompletionFunction = TModel ''CompletionFunction''
     [Fld ''name'' TStr PydanticUndefined,
      Fld ''arguments'' TStr PydanticUndefined]"

definition CompletionToolCall :: ann where
  "CompletionToolCall = TModel ''CompletionToolCall''
     [Fld ''id'' TStr PydanticUndefined,
      Fld ''type'' (TLiteral [''function'']) PydanticUndefined,
      Fld ''function'' CompletionFunction PydanticUndefined]"

definition CompletionMessage :: ann where
  "CompletionMessage = TModel ''CompletionMessage''
     [Fld ''role'' (TLiteral [''assistant'']) PydanticUndefined,
      Fld ''content'' MessageContent PydanticUndefined,
      Fld ''name'' (TOptional TStr) (Default PNone),
      Fld ''function_call'' (TOptional CompletionFunction) (Default PNone),
      Fld ''tool_calls'' (TOptional (TList CompletionToolCall)) (Default PNone),
      Fld ''tool_call_id'' (TOptional TStr) (Default PNone)]"

definition finish_reasons :: "string list" where
  "finish_reasons = [''stop'', ''length'', ''tool_calls'']"

definition Completion_Choice :: ann where
  "Completion_Choice = TModel ''Completion.Choice''
     [Fld ''message'' CompletionMessage PydanticUndefined,
      Fld ''finish_reason'' (TLiteral finish_reasons) PydanticUndefined,
      Fld ''index'' TInt PydanticUndefined,
      Fld ''logprobs'' (TOptional ChoiceLogprobs) (Default PNone)]"

definition envelope_fields :: "ann \<Rightarrow> fld list" where
  "envelope_fields choice =
     [Fld ''id'' TStr PydanticUndefined,
      Fld ''choices'' (TList choice) PydanticUndefined,
      Fld ''created'' TInt PydanticUndefined,
      Fld ''model'' TStr PydanticUndefined,
      Fld ''object'' (TUnion [TStr, TLiteral [''chat.completion'']]) PydanticUndefined,
      Fld ''service_tier'' (TOptional (TLiteral [''scale'', ''default''])) (Default PNone),
      Fld ''system_fingerprint'' (TOptional TStr) (Default PNone),
      Fld ''usage'' (TOptional TBaseModel) (Default PNone)]"

definition Completion :: ann where
  "Completion = TModel ''Completion'' (envelope_fields Completion_Choice)"

definition CompletionChunk_Choice :: ann where
  "CompletionChunk_Choice = TModel ''CompletionChunk.Choice''
     [Fld ''delta'' CompletionMessage PydanticUndefined,
      Fld ''finish_reason'' (TLiteral finish_reasons) PydanticUndefined,
      Fld ''index'' TInt PydanticUndefined,
      Fld ''logprobs'' (TOptional ChoiceLogprobs) (Default PNone)]"

definition CompletionChunk :: ann where
  "CompletionChunk = TModel ''CompletionChunk'' (envelope_fields CompletionChunk_Choice)"

definition Embedding :: ann where
  "Embedding = TModel ''Embedding''
     [Fld ''embedding'' (TList TFloat) PydanticUndefined,
      Fld ''index'' TInt PydanticUndefined,
      Fld ''object'' (TLiteral [''embedding'']) PydanticUndefined]"

definition response_models :: "ann list" where
  "response_models =
     [TopLogprob, TokenLogprob, ChoiceLogprobs, CompletionFunction, CompletionToolCall,
      CompletionMessage, Completion_Choice, Completion, CompletionChunk_Choice,
      CompletionChunk, Embedding]"

section \<open>The \<^verbatim>\<open>Subscriptable\<close> wrapper\<close>

text \<open>
  \<^verbatim>\<open>getattr\<close> and \<^verbatim>\<open>setattr\<close> on an instance. Besides its fields an instance has the
  attributes of its class: the four methods \<^verbatim>\<open>Subscriptable\<close> defines, the two tables its
  \<^verbatim>\<open>__contains__\<close> reads on \<^verbatim>\<open>self\<close>, and everything inherited from pydantic's \<^verbatim>\<open>BaseModel\<close>
  and from \<^verbatim>\<open>object\<close>. The inherited names, and which of them are properties, belong to
  the library and are a parameter.
\<close>

record base_ns =
  base_attrs :: "string list"
  base_props :: "string list"

definition subscriptable_attrs :: "string list" where
  "subscriptable_attrs =
     [''__getitem__'', ''__setitem__'', ''__contains__'', ''get'',
      ''model_fields_set'', ''model_fields'']"

definition class_attrs :: "base_ns \<Rightarrow> string list" where
  "class_attrs B = subscriptable_attrs @ base_attrs B @ base_props B"

definition getattr :: "base_ns \<Rightarrow> model_inst \<Rightarrow> string \<Rightarrow> error + pyval" where
  "getattr B self key =
     (case map_of (idict self) key of
        Some v \<Rightarrow> Inr v
      | None \<Rightarrow>
          if key \<in> set (class_attrs B) then Inr (PAttr key)
          else Inl (AttributeError key))"

text \<open>
  \<^verbatim>\<open>BaseModel.__setattr__\<close> under the default configuration (not frozen, no
  \<^verbatim>\<open>validate_assignment\<close>, no extra fields, no \<^verbatim>\<open>ClassVar\<close> and no private attribute in the
  source): a name that starts with an underscore goes to \<^verbatim>\<open>object.__setattr__\<close>, which
  stores it in the instance's \<^verbatim>\<open>__dict__\<close>; a property of the class refuses the write;
  a name that is not a field raises \<^verbatim>\<open>ValueError\<close>; a field is stored as given, without
  validation, and recorded in \<^verbatim>\<open>model_fields_set\<close>.
  What \<^verbatim>\<open>object.__setattr__\<close> does with an underscore name that the class itself defines
  (a slot, a dunder attribute) is left open: \<open>Unmodelled\<close>.
\<close>

definition is_valid_field_name :: "string \<Rightarrow> bool" where
  "is_valid_field_name name = (case name of [] \<Rightarrow> True | c # _ \<Rightarrow> c \<noteq> CHR ''_'')"

definition setattr :: "base_ns \<Rightarrow> ann \<Rightarrow> model_inst \<Rightarrow> string \<Rightarrow> pyval \<Rightarrow> error + model_inst" where
  "setattr B cls self name v =
     (if \<not> is_valid_field_name name then
        (if name \<in> set (class_attrs B) then Inl (Unmodelled name)
         else Inr (Instance (cname self) (AList.update name v (idict self)) (fields_set self)))
      else if name \<in> set (base_props B) then Inl (AttributeError name)
      else if name \<notin> set (field_names cls) then Inl (ValueError name)
      else Inr (Instance (cname self) (AList.update name v (idict self))
                  (List.insert name (fields_set self))))"

text \<open>The four methods of \<^verbatim>\<open>Subscriptable\<close>, as the source writes them.\<close>

definition getitem :: "base_ns \<Rightarrow> model_inst \<Rightarrow> string \<Rightarrow> error + pyval" where
  "getitem B self key = getattr B self key"

definition setitem :: "base_ns \<Rightarrow> ann \<Rightarrow> model_inst \<Rightarrow> string \<Rightarrow> pyval \<Rightarrow> error + model_inst" where
  "setitem B cls self key v = setattr B cls self key v"

definition contains :: "ann \<Rightarrow> model_inst \<Rightarrow> string \<Rightarrow> bool" where
  "contains cls self key =
     (if key \<in> set (fields_set self) then True
      else
        (case find_field (model_fields cls) key of
           Some f \<Rightarrow> fdefault f \<noteq> Default PNone
         | None \<Rightarrow> False))"

definition get :: "base_ns \<Rightarrow> ann \<Rightarrow> model_inst \<Rightarrow> string \<Rightarrow> pyval \<Rightarrow> error + pyval" where
  "get B cls self key default_value =
     (if contains cls self key then getitem B self key else Inr default_value)"

text \<open>
  A class that pydantic accepts as a model: every field is required or has a default, and
  no field name starts with an underscore or shadows an attribute of \<^verbatim>\<open>BaseModel\<close> (pydantic
  refuses such a class when it is defined).
\<close>

definition pydantic_model :: "base_ns \<Rightarrow> ann \<Rightarrow> bool" where
  "pydantic_model B cls =
     (case cls of
        TModel n fs \<Rightarrow>
          list_all (\<lambda>f. fdefault f \<noteq> NotRequired \<and> is_valid_field_name (fname f)
                        \<and> fname f \<notin> set (class_attrs B)) fs
      | _ \<Rightarrow> False)"

section \<open>Serialisation\<close>


section \<open>Instances in use\<close>


text \<open>
  Concrete parameters for the examples: a string parser that recognises nothing, and a few
  of the names every pydantic model inherits.
\<close>

definition no_parse :: lax where
  "no_parse = \<lparr>str_as_int = (\<lambda>_. None), str_as_float = (\<lambda>_. None), str_as_bool = (\<lambda>_. None)\<rparr>"

definition example_ns :: base_ns where
  "example_ns =
     \<lparr>base_attrs = [''model_dump'', ''model_validate'', ''model_copy'', ''model_config'',
                     ''__class__'', ''__dict__'', ''__pydantic_fields_set__''],
      base_props = [''model_extra'', ''model_fields_set'']\<rparr>"

text \<open>A subclass with a field whose default is not \<^verbatim>\<open>None\<close>; the source has none.\<close>

definition ExampleWithDefault :: ann where
  "ExampleWithDefault = TModel ''ExampleWithDefault''
     [Fld ''label'' TStr PydanticUndefined,
      Fld ''count'' TInt (Default (PInt 3)),
      Fld ''note'' (TOptional TStr) (Default PNone)]"

text \<open>An instance of \<^verbatim>\<open>TopLogprob\<close> built without its optional \<^verbatim>\<open>bytes\<close>.\<close>

definition example_kwargs :: "(string \<times> pyval) list" where
  "example_kwargs = [(''token'', PStr ''hi''), (''logprob'', PFloat (Finite (- 1 / 2)))]"

definition example_instance :: model_inst where
  "example_instance = Instance ''TopLogprob''
     [(''token'', PStr ''hi''), (''bytes'', PNone), (''logprob'', PFloat (Finite (- 1 / 2)))]
     [''token'', ''logprob'']"


text \<open>A minimal assistant message, as a payload and as the instance it validates to.\<close>

definition example_message :: pyval where
  "example_message = PDict [(''role'', PStr ''assistant''), (''content'', PStr ''hi'')]"

definition example_message_instance :: pyval where
  "example_message_instance = PModel (Instance ''CompletionMessage''
     [(''role'', PStr ''assistant''), (''content'', PStr ''hi''), (''name'', PNone),
      (''function_call'', PNone), (''tool_calls'', PNone), (''tool_call_id'', PNone)]
     [''role'', ''content''])"

section \<open>Payloads that conform exactly\<close>












section \<open>Facts about validation\<close>

lemma validate_no_empty_error: "validate L a v \<noteq> Inl []"
  by (rule validate_validate_items_validate_values_validate_union_validate_fields.induct(1)
        [where ?P1.0 = "\<lambda>L a v. validate L a v \<noteq> Inl []"
           and ?P2.0 = "\<lambda>_ _ _ _. True" and ?P3.0 = "\<lambda>_ _ _. True"
           and ?P4.0 = "\<lambda>L as v. validate_union L as v \<noteq> Inl []"
           and ?P5.0 = "\<lambda>_ _ _. True"])
     (auto simp: validate_str_def validate_int_def validate_float_def validate_bool_def
        validate_literal_def validate_iterable_def validate_base_model_def
        split: pyval.splits pyfloat.splits option.splits list.splits prod.splits sum.splits)

lemma at_loc_Nil [simp]: "at_loc k e = [] \<longleftrightarrow> e = []"
  by (simp add: at_loc_def)

lemma field_present_ok:
  "field_present k (validate L a v) acc = ([], d', s) \<Longrightarrow>
   \<exists>w d0 s0. validate L a v = Inr w \<and> acc = ([], d0, s0) \<and> d' = (k, w) # d0 \<and> s = k # s0"
  using validate_no_empty_error [of L a v]
  by (cases acc; cases "validate L a v") (auto simp: field_present_def)

lemma field_absent_ok:
  "field_absent k df acc = ([], d', s) \<Longrightarrow>
   \<exists>d0. acc = ([], d0, s) \<and>
     ((\<exists>dv. df = Default dv \<and> d' = (k, dv) # d0) \<or> (df = NotRequired \<and> d' = d0))"
  by (cases acc; cases df) (auto simp: field_absent_def)

text \<open>One step of a successful walk over the declared fields.\<close>

lemma validate_fields_Cons_ok:
  assumes "validate_fields L (Fld k a df # fs) d = ([], d', s)"
  shows "\<exists>d0 s0. validate_fields L fs d = ([], d0, s0) \<and>
          (case map_of d k of
             Some v \<Rightarrow> \<exists>w. validate L a v = Inr w \<and> d' = (k, w) # d0 \<and> s = k # s0
           | None \<Rightarrow> s = s0 \<and> ((\<exists>dv. df = Default dv \<and> d' = (k, dv) # d0)
                               \<or> (df = NotRequired \<and> d' = d0)))"
proof (cases "map_of d k")
  case None
  with assms have "field_absent k df (validate_fields L fs d) = ([], d', s)" by simp
  from field_absent_ok [OF this] None show ?thesis by auto
next
  case (Some v)
  with assms have "field_present k (validate L a v) (validate_fields L fs d) = ([], d', s)"
    by simp
  from field_present_ok [OF this] Some show ?thesis by auto
qed

text \<open>A key recorded as set was supplied and is stored.\<close>

lemma validate_fields_set:
  "validate_fields L fs d = ([], d', s) \<Longrightarrow> k \<in> set s \<Longrightarrow>
   map_of d k \<noteq> None \<and> map_of d' k \<noteq> None"
proof (induction fs arbitrary: d' s)
  case Nil
  then show ?case by simp
next
  case (Cons g fs)
  obtain n a df where g: "g = Fld n a df" by (cases g)
  from validate_fields_Cons_ok [OF Cons.prems(1) [unfolded g]]
  obtain d0 s0 where r: "validate_fields L fs d = ([], d0, s0)"
    and step: "case map_of d n of
             Some v \<Rightarrow> \<exists>w. validate L a v = Inr w \<and> d' = (n, w) # d0 \<and> s = n # s0
           | None \<Rightarrow> s = s0 \<and> ((\<exists>dv. df = Default dv \<and> d' = (n, dv) # d0)
                               \<or> (df = NotRequired \<and> d' = d0))"
    by blast
  show ?case
  proof (cases "n = k")
    case True
    with step g Cons.prems(2-) Cons.IH [OF r] show ?thesis
      by (auto split: option.splits)
  next
    case False
    with step g Cons.prems(2-) Cons.IH [OF r] show ?thesis
      by (auto split: option.splits)
  qed
qed

text \<open>A declared field that was not supplied has a default, and the default is stored.\<close>

lemma validate_fields_absent:
  "validate_fields L fs d = ([], d', s) \<Longrightarrow> find_field fs k = Some f \<Longrightarrow>
   map_of d k = None \<Longrightarrow>
   fdefault f \<noteq> PydanticUndefined \<and> (\<forall>dv. fdefault f = Default dv \<longrightarrow> map_of d' k = Some dv)"
proof (induction fs arbitrary: d' s)
  case Nil
  then show ?case by simp
next
  case (Cons g fs)
  obtain n a df where g: "g = Fld n a df" by (cases g)
  from validate_fields_Cons_ok [OF Cons.prems(1) [unfolded g]]
  obtain d0 s0 where r: "validate_fields L fs d = ([], d0, s0)"
    and step: "case map_of d n of
             Some v \<Rightarrow> \<exists>w. validate L a v = Inr w \<and> d' = (n, w) # d0 \<and> s = n # s0
           | None \<Rightarrow> s = s0 \<and> ((\<exists>dv. df = Default dv \<and> d' = (n, dv) # d0)
                               \<or> (df = NotRequired \<and> d' = d0))"
    by blast
  show ?case
  proof (cases "n = k")
    case True
    with step g Cons.prems(2-) Cons.IH [OF r] show ?thesis
      by (auto split: option.splits)
  next
    case False
    with step g Cons.prems(2-) Cons.IH [OF r] show ?thesis
      by (auto split: option.splits)
  qed
qed

text \<open>A declared field that was supplied passed its validator, and the result is stored.\<close>

lemma validate_fields_supplied:
  "validate_fields L fs d = ([], d', s) \<Longrightarrow> find_field fs k = Some f \<Longrightarrow>
   map_of d k = Some v \<Longrightarrow>
   k \<in> set s \<and> (\<exists>w. validate L (fann f) v = Inr w \<and> map_of d' k = Some w)"
proof (induction fs arbitrary: d' s)
  case Nil
  then show ?case by simp
next
  case (Cons g fs)
  obtain n a df where g: "g = Fld n a df" by (cases g)
  from validate_fields_Cons_ok [OF Cons.prems(1) [unfolded g]]
  obtain d0 s0 where r: "validate_fields L fs d = ([], d0, s0)"
    and step: "case map_of d n of
             Some v \<Rightarrow> \<exists>w. validate L a v = Inr w \<and> d' = (n, w) # d0 \<and> s = n # s0
           | None \<Rightarrow> s = s0 \<and> ((\<exists>dv. df = Default dv \<and> d' = (n, dv) # d0)
                               \<or> (df = NotRequired \<and> d' = d0))"
    by blast
  show ?case
  proof (cases "n = k")
    case True
    with step g Cons.prems(2-) Cons.IH [OF r] show ?thesis
      by (auto split: option.splits)
  next
    case False
    with step g Cons.prems(2-) Cons.IH [OF r] show ?thesis
      by (auto split: option.splits)
  qed
qed

lemma model_init_Inr:
  "model_init L cls kwargs = Inr m \<Longrightarrow>
   \<exists>d s. validate_fields L (model_fields cls) kwargs = ([], d, s)
        \<and> m = Instance (model_name cls) d s"
  by (auto simp: model_init_def split: prod.splits list.splits)

lemma model_init_cases:
  "(\<exists>m. model_init L cls kwargs = Inr m) \<or> (\<exists>es. model_init L cls kwargs = Inl (ValidationError es))"
  by (auto simp: model_init_def split: prod.splits list.splits)

section \<open>The presence rule\<close>

text \<open>
  Claim C1. For an instance built from a valid payload and a declared field \<open>k\<close> that the
  payload did not supply: when the declared default of \<open>k\<close> is a value other than \<^verbatim>\<open>None\<close>,
  \<^verbatim>\<open>k in m\<close> is true and \<^verbatim>\<open>m.get(k)\<close> returns that default; when the declared default is
  \<^verbatim>\<open>None\<close>, \<^verbatim>\<open>k in m\<close> is false and \<^verbatim>\<open>m.get(k, fallback)\<close> returns \<^verbatim>\<open>fallback\<close>.
\<close>

theorem presence_rule:
  assumes init: "model_init L cls kwargs = Inr m"
    and fld: "find_field (model_fields cls) k = Some f"
    and absent: "map_of kwargs k = None"
  shows "(\<forall>dv. fdefault f = Default dv \<and> dv \<noteq> PNone \<longrightarrow>
            contains cls m k \<and> get B cls m k PNone = Inr dv)
       \<and> (fdefault f = Default PNone \<longrightarrow>
            \<not> contains cls m k \<and> get B cls m k fallback = Inr fallback)"
proof -
  from model_init_Inr [OF init] obtain d s
    where vf: "validate_fields L (model_fields cls) kwargs = ([], d, s)"
      and m: "m = Instance (model_name cls) d s" by blast
  from validate_fields_set [OF vf, of k] absent have notset: "k \<notin> set s" by blast
  have A: "contains cls m k \<and> get B cls m k PNone = Inr dv"
    if "fdefault f = Default dv" "dv \<noteq> PNone" for dv
  proof -
    from validate_fields_absent [OF vf fld absent] that(1) have "map_of d k = Some dv"
      by blast
    with that fld m notset show ?thesis
      by (simp add: contains_def get_def getitem_def getattr_def)
  qed
  have B: "\<not> contains cls m k \<and> get B cls m k fallback = Inr fallback"
    if "fdefault f = Default PNone"
    using that fld m notset by (simp add: contains_def get_def)
  from A B show ?thesis by blast
qed

text \<open>
  The rule at work on a class with a default of 3 and a default of \<^verbatim>\<open>None\<close>, neither
  supplied.
\<close>

theorem presence_rule_witness:
  "model_init no_parse ExampleWithDefault [(''label'', PStr ''a'')] =
     Inr (Instance ''ExampleWithDefault''
            [(''label'', PStr ''a''), (''count'', PInt 3), (''note'', PNone)] [''label''])
   \<and> contains ExampleWithDefault
        (Instance ''ExampleWithDefault''
            [(''label'', PStr ''a''), (''count'', PInt 3), (''note'', PNone)] [''label'']) ''count''
   \<and> get example_ns ExampleWithDefault
        (Instance ''ExampleWithDefault''
            [(''label'', PStr ''a''), (''count'', PInt 3), (''note'', PNone)] [''label''])
        ''count'' PNone = Inr (PInt 3)
   \<and> \<not> contains ExampleWithDefault
        (Instance ''ExampleWithDefault''
            [(''label'', PStr ''a''), (''count'', PInt 3), (''note'', PNone)] [''label'']) ''note''
   \<and> get example_ns ExampleWithDefault
        (Instance ''ExampleWithDefault''
            [(''label'', PStr ''a''), (''count'', PInt 3), (''note'', PNone)] [''label''])
        ''note'' (PStr ''fallback'') = Inr (PStr ''fallback'')"
proof -
  let ?m = "Instance ''ExampleWithDefault''
            [(''label'', PStr ''a''), (''count'', PInt 3), (''note'', PNone)] [''label'']"
  have i: "model_init no_parse ExampleWithDefault [(''label'', PStr ''a'')] = Inr ?m"
    by (simp add: model_init_def ExampleWithDefault_def field_present_def field_absent_def
        validate_str_def)
  have f1: "find_field (model_fields ExampleWithDefault) ''count''
              = Some (Fld ''count'' TInt (Default (PInt 3)))"
    by (simp add: ExampleWithDefault_def)
  have f2: "find_field (model_fields ExampleWithDefault) ''note''
              = Some (Fld ''note'' (TOptional TStr) (Default PNone))"
    by (simp add: ExampleWithDefault_def)
  have a1: "map_of [(''label'', PStr ''a'')] ''count'' = None" by simp
  have a2: "map_of [(''label'', PStr ''a'')] ''note'' = None" by simp
  from presence_rule [OF i f1 a1, of example_ns "PStr ''fallback''"]
       presence_rule [OF i f2 a2, of example_ns "PStr ''fallback''"] i
  show ?thesis by simp
qed

section \<open>Instances in use keep their fields\<close>


lemma find_field_None: "find_field fs k = None \<longleftrightarrow> k \<notin> fname ` set fs"
  by (induction fs) auto

text \<open>Only declared fields are stored.\<close>

lemma validate_fields_keys:
  "validate_fields L fs d = (es, d', s) \<Longrightarrow> map_of d' k \<noteq> None \<Longrightarrow> k \<in> fname ` set fs"
proof (induction fs arbitrary: es d' s)
  case Nil
  then show ?case by simp
next
  case (Cons g fs)
  obtain n a df where g: "g = Fld n a df" by (cases g)
  obtain es0 d0 s0 where r: "validate_fields L fs d = (es0, d0, s0)"
    by (cases "validate_fields L fs d")
  from Cons.prems g r have "k = n \<or> map_of d0 k \<noteq> None"
    by (auto simp: field_present_def field_absent_def
             split: option.splits sum.splits dflt.splits if_splits)
  with Cons.IH [OF r] g show ?case by auto
qed

lemma pydantic_model_field:
  "pydantic_model B cls \<Longrightarrow> f \<in> set (model_fields cls) \<Longrightarrow>
   fdefault f \<noteq> NotRequired \<and> is_valid_field_name (fname f) \<and> fname f \<notin> set (class_attrs B)"
  by (cases cls) (auto simp: pydantic_model_def list_all_iff)




text \<open>
  Every response model of the source is such a class, whatever the inherited names are,
  as long as no field shadows one of them.
\<close>

lemma response_models_pydantic:
  assumes "cls \<in> set response_models"
    and "set (field_names cls) \<inter> set (class_attrs B) = {}"
  shows "pydantic_model B cls"
  using assms
  unfolding response_models_def
  by (auto simp: pydantic_model_def field_names_def is_valid_field_name_def
        TopLogprob_def TokenLogprob_def ChoiceLogprobs_def CompletionFunction_def
        CompletionToolCall_def CompletionMessage_def Completion_Choice_def Completion_def
        CompletionChunk_Choice_def CompletionChunk_def Embedding_def envelope_fields_def)

lemma example_init: "model_init no_parse TopLogprob example_kwargs = Inr example_instance"
  by (simp add: model_init_def TopLogprob_def example_kwargs_def example_instance_def
        field_present_def field_absent_def validate_str_def validate_float_def)

lemma example_model: "pydantic_model example_ns TopLogprob"
  by (simp add: pydantic_model_def TopLogprob_def is_valid_field_name_def class_attrs_def
        subscriptable_attrs_def example_ns_def)


section \<open>\<^verbatim>\<open>get\<close> never raises\<close>



section \<open>Key-write to a declared field\<close>

text \<open>
  Claim C9. For every instance, every declared field \<open>k\<close> of its class and every value \<open>v\<close>,
  whether or not \<open>v\<close> fits the declared type of \<open>k\<close>, \<^verbatim>\<open>m[k] = v\<close> succeeds and a following
  \<^verbatim>\<open>m[k]\<close> returns \<open>v\<close>: a key-write validates nothing.
\<close>

theorem setitem_declared_unvalidated:
  assumes pm: "pydantic_model B cls" and k: "k \<in> set (field_names cls)"
  shows "setitem B cls m k v =
           Inr (Instance (cname m) (AList.update k v (idict m)) (List.insert k (fields_set m)))
       \<and> getitem B (Instance (cname m) (AList.update k v (idict m))
                      (List.insert k (fields_set m))) k = Inr v"
proof -
  from k obtain f where f: "f \<in> set (model_fields cls)" "fname f = k"
    by (auto simp: field_names_def)
  from pydantic_model_field [OF pm f(1)] f(2)
  have "is_valid_field_name k" "k \<notin> set (class_attrs B)" by auto
  then have "k \<notin> set (base_props B)" by (simp add: class_attrs_def)
  with \<open>is_valid_field_name k\<close> k show ?thesis
    by (simp add: setitem_def setattr_def getitem_def getattr_def update_conv')
qed

text \<open>
  A string the constructor rejects for the float field \<^verbatim>\<open>logprob\<close> is stored by a key-write
  and read back.
\<close>

theorem setitem_declared_unvalidated_witness:
  "pydantic_model example_ns TopLogprob
   \<and> ''logprob'' \<in> set (field_names TopLogprob)
   \<and> model_init no_parse TopLogprob [(''token'', PStr ''hi''), (''logprob'', PStr ''high'')]
       = Inl (ValidationError [([Key ''logprob''], ''float_parsing'')])
   \<and> setitem example_ns TopLogprob example_instance ''logprob'' (PStr ''high'') =
       Inr (Instance ''TopLogprob''
              [(''token'', PStr ''hi''), (''bytes'', PNone), (''logprob'', PStr ''high'')]
              [''token'', ''logprob''])
   \<and> getitem example_ns
        (Instance ''TopLogprob''
              [(''token'', PStr ''hi''), (''bytes'', PNone), (''logprob'', PStr ''high'')]
              [''token'', ''logprob'']) ''logprob'' = Inr (PStr ''high'')"
proof -
  have k: "''logprob'' \<in> set (field_names TopLogprob)"
    by (simp add: field_names_def TopLogprob_def)
  have bad: "model_init no_parse TopLogprob [(''token'', PStr ''hi''), (''logprob'', PStr ''high'')]
       = Inl (ValidationError [([Key ''logprob''], ''float_parsing'')])"
    by (simp add: model_init_def TopLogprob_def field_present_def field_absent_def
          validate_str_def validate_float_def no_parse_def at_loc_def)
  from setitem_declared_unvalidated [OF example_model k, of example_instance "PStr ''high''"]
  show ?thesis using example_model k bad by (simp add: example_instance_def)
qed


section \<open>Access by an undeclared key\<close>

text \<open>
  Claim C5, as the code has it. For a key \<open>k\<close> that is not a declared field: on an instance
  as constructed, \<^verbatim>\<open>m[k]\<close> raises \<^verbatim>\<open>AttributeError\<close> unless \<open>k\<close> names an attribute of the
  class, in which case that attribute is returned; and when \<open>k\<close> does not start with an
  underscore, \<^verbatim>\<open>m[k] = v\<close> raises for every \<open>v\<close> (\<^verbatim>\<open>ValueError\<close>, or \<^verbatim>\<open>AttributeError\<close> for a
  property of the class) and creates no key. Both results are functions of the instance
  and the key, so a repetition gives the same result.
\<close>

theorem undeclared_key_access:
  assumes k: "k \<notin> set (field_names cls)"
  shows "(model_init L cls kwargs = Inr m \<longrightarrow>
            getitem B m k = (if k \<in> set (class_attrs B) then Inr (PAttr k)
                             else Inl (AttributeError k)))
       \<and> (is_valid_field_name k \<longrightarrow>
            setitem B cls m' k v = Inl (if k \<in> set (base_props B) then AttributeError k
                                        else ValueError k))"
proof -
  have "getitem B m k = (if k \<in> set (class_attrs B) then Inr (PAttr k)
                             else Inl (AttributeError k))"
    if init: "model_init L cls kwargs = Inr m"
  proof -
    from model_init_Inr [OF init] obtain d s
      where vf: "validate_fields L (model_fields cls) kwargs = ([], d, s)"
        and m: "m = Instance (model_name cls) d s" by blast
    from validate_fields_keys [OF vf, of k] k have "map_of d k = None"
      by (auto simp: field_names_def)
    with m show ?thesis by (simp add: getitem_def getattr_def)
  qed
  moreover have "setitem B cls m' k v = Inl (if k \<in> set (base_props B) then AttributeError k
                                        else ValueError k)"
    if "is_valid_field_name k"
    using that k by (simp add: setitem_def setattr_def)
  ultimately show ?thesis by blast
qed

theorem undeclared_key_access_witness:
  "''no_such_key'' \<notin> set (field_names TopLogprob)
   \<and> model_init no_parse TopLogprob example_kwargs = Inr example_instance
   \<and> getitem example_ns example_instance ''no_such_key'' = Inl (AttributeError ''no_such_key'')
   \<and> is_valid_field_name ''no_such_key''
   \<and> setitem example_ns TopLogprob example_instance ''no_such_key'' (PInt 1)
       = Inl (ValueError ''no_such_key'')"
proof -
  have k: "''no_such_key'' \<notin> set (field_names TopLogprob)"
    by (simp add: field_names_def TopLogprob_def)
  have v: "is_valid_field_name ''no_such_key''" by (simp add: is_valid_field_name_def)
  have a: "''no_such_key'' \<notin> set (class_attrs example_ns)"
    by (simp add: class_attrs_def subscriptable_attrs_def example_ns_def)
  have p: "''no_such_key'' \<notin> set (base_props example_ns)"
    by (simp add: example_ns_def)
  from undeclared_key_access [OF k, of no_parse example_kwargs example_instance example_ns
         example_instance "PInt 1"] example_init v a p k
  show ?thesis by simp
qed

text \<open>
  The claim as stated fails: \<^verbatim>\<open>get\<close> is not a declared field of \<^verbatim>\<open>TopLogprob\<close>, yet
  \<^verbatim>\<open>m["get"]\<close> returns the bound method instead of raising; \<^verbatim>\<open>_seen\<close> is not a declared
  field either, yet \<^verbatim>\<open>m["_seen"] = True\<close> succeeds and creates the key.
\<close>

theorem undeclared_key_counterexample:
  "model_init no_parse TopLogprob example_kwargs = Inr example_instance
   \<and> ''get'' \<notin> set (field_names TopLogprob)
   \<and> getitem example_ns example_instance ''get'' = Inr (PAttr ''get'')
   \<and> ''_seen'' \<notin> set (field_names TopLogprob)
   \<and> setitem example_ns TopLogprob example_instance ''_seen'' (PBool True) =
       Inr (Instance ''TopLogprob''
              [(''token'', PStr ''hi''), (''bytes'', PNone),
               (''logprob'', PFloat (Finite (- 1 / 2))), (''_seen'', PBool True)]
              [''token'', ''logprob''])"
  using example_init
  by (simp add: field_names_def TopLogprob_def getitem_def getattr_def example_instance_def
        class_attrs_def subscriptable_attrs_def setitem_def setattr_def is_valid_field_name_def
        example_ns_def)

section \<open>Failing fields fail the construction\<close>

lemma model_init_field_error:
  assumes "find_field (model_fields cls) k = Some f" and "map_of kwargs k = Some v"
    and "validate L (fann f) v = Inl e"
  shows "\<exists>es. model_init L cls kwargs = Inl (ValidationError es)"
proof -
  have "model_init L cls kwargs \<noteq> Inr m" for m
  proof
    assume "model_init L cls kwargs = Inr m"
    from model_init_Inr [OF this] obtain d s
      where "validate_fields L (model_fields cls) kwargs = ([], d, s)" by blast
    from validate_fields_supplied [OF this assms(1,2)] assms(3) show False by auto
  qed
  with model_init_cases [of L cls kwargs] show ?thesis by blast
qed





lemma example_message_valid:
  "validate L CompletionMessage example_message = Inr example_message_instance"
  by (simp add: CompletionMessage_def example_message_def example_message_instance_def
        MessageContent_def field_present_def field_absent_def validate_literal_def
        validate_str_def)


section \<open>The closed enumeration of \<^verbatim>\<open>finish_reason\<close>\<close>

text \<open>
  Claim C6. Constructing a \<^verbatim>\<open>Completion.Choice\<close> or a \<^verbatim>\<open>CompletionChunk.Choice\<close> whose
  \<^verbatim>\<open>finish_reason\<close> is a string outside \<open>stop\<close>, \<open>length\<close>, \<open>tool_calls\<close> fails with a
  \<^verbatim>\<open>ValidationError\<close>, \<open>content_filter\<close> being such a string; constructing it with
  \<^verbatim>\<open>finish_reason = "stop"\<close>, an integer \<^verbatim>\<open>index\<close> and a message (or delta) that validates
  succeeds.
\<close>

theorem finish_reason_closed:
  "(map_of kwargs ''finish_reason'' = Some (PStr s) \<and> s \<notin> set finish_reasons \<longrightarrow>
      (\<exists>es. model_init L Completion_Choice kwargs = Inl (ValidationError es)) \<and>
      (\<exists>es. model_init L CompletionChunk_Choice kwargs = Inl (ValidationError es)))
   \<and> ''content_filter'' \<notin> set finish_reasons
   \<and> (map_of kwargs ''finish_reason'' = Some (PStr ''stop'') \<and>
      map_of kwargs ''index'' = Some (PInt i) \<and> map_of kwargs ''logprobs'' = None \<longrightarrow>
      (\<forall>msg msg'. map_of kwargs ''message'' = Some msg \<and> validate L CompletionMessage msg = Inr msg' \<longrightarrow>
         model_init L Completion_Choice kwargs =
           Inr (Instance ''Completion.Choice''
                  [(''message'', msg'), (''finish_reason'', PStr ''stop''), (''index'', PInt i),
                   (''logprobs'', PNone)]
                  [''message'', ''finish_reason'', ''index''])) \<and>
      (\<forall>msg msg'. map_of kwargs ''delta'' = Some msg \<and> validate L CompletionMessage msg = Inr msg' \<longrightarrow>
         model_init L CompletionChunk_Choice kwargs =
           Inr (Instance ''CompletionChunk.Choice''
                  [(''delta'', msg'), (''finish_reason'', PStr ''stop''), (''index'', PInt i),
                   (''logprobs'', PNone)]
                  [''delta'', ''finish_reason'', ''index''])))"
proof -
  have rej: "(\<exists>es. model_init L Completion_Choice kwargs = Inl (ValidationError es)) \<and>
      (\<exists>es. model_init L CompletionChunk_Choice kwargs = Inl (ValidationError es))"
    if k: "map_of kwargs ''finish_reason'' = Some (PStr s)" and s: "s \<notin> set finish_reasons"
  proof -
    let ?f = "Fld ''finish_reason'' (TLiteral finish_reasons) PydanticUndefined"
    have f1: "find_field (model_fields Completion_Choice) ''finish_reason'' = Some ?f"
      by (simp add: Completion_Choice_def)
    have f2: "find_field (model_fields CompletionChunk_Choice) ''finish_reason'' = Some ?f"
      by (simp add: CompletionChunk_Choice_def)
    from s have e: "validate L (fann ?f) (PStr s) = Inl [([], ''literal_error'')]"
      by (simp add: validate_literal_def)
    from model_init_field_error [OF f1 k e] model_init_field_error [OF f2 k e]
    show ?thesis by blast
  qed
  have cf: "''content_filter'' \<notin> set finish_reasons"
    by (simp add: finish_reasons_def)
  have acc1: "model_init L Completion_Choice kwargs =
           Inr (Instance ''Completion.Choice''
                  [(''message'', msg'), (''finish_reason'', PStr ''stop''), (''index'', PInt i),
                   (''logprobs'', PNone)]
                  [''message'', ''finish_reason'', ''index''])"
    if "map_of kwargs ''finish_reason'' = Some (PStr ''stop'')"
      "map_of kwargs ''index'' = Some (PInt i)" "map_of kwargs ''logprobs'' = None"
      "map_of kwargs ''message'' = Some msg" "validate L CompletionMessage msg = Inr msg'"
    for msg msg'
    using that
    by (simp add: model_init_def Completion_Choice_def field_present_def field_absent_def
          validate_literal_def validate_int_def finish_reasons_def)
  have acc2: "model_init L CompletionChunk_Choice kwargs =
           Inr (Instance ''CompletionChunk.Choice''
                  [(''delta'', msg'), (''finish_reason'', PStr ''stop''), (''index'', PInt i),
                   (''logprobs'', PNone)]
                  [''delta'', ''finish_reason'', ''index''])"
    if "map_of kwargs ''finish_reason'' = Some (PStr ''stop'')"
      "map_of kwargs ''index'' = Some (PInt i)" "map_of kwargs ''logprobs'' = None"
      "map_of kwargs ''delta'' = Some msg" "validate L CompletionMessage msg = Inr msg'"
    for msg msg'
    using that
    by (simp add: model_init_def CompletionChunk_Choice_def field_present_def field_absent_def
          validate_literal_def validate_int_def finish_reasons_def)
  from rej cf acc1 acc2 show ?thesis by blast
qed


theorem finish_reason_closed_witness:
  "(\<exists>es. model_init no_parse Completion_Choice
            [(''message'', example_message), (''finish_reason'', PStr ''content_filter''),
             (''index'', PInt 0)] = Inl (ValidationError es))
   \<and> (\<exists>es. model_init no_parse CompletionChunk_Choice
            [(''delta'', example_message), (''finish_reason'', PStr ''content_filter''),
             (''index'', PInt 0)] = Inl (ValidationError es))
   \<and> model_init no_parse Completion_Choice
        [(''message'', example_message), (''finish_reason'', PStr ''stop''), (''index'', PInt 0)]
      = Inr (Instance ''Completion.Choice''
               [(''message'', example_message_instance), (''finish_reason'', PStr ''stop''),
                (''index'', PInt 0), (''logprobs'', PNone)]
               [''message'', ''finish_reason'', ''index''])
   \<and> model_init no_parse CompletionChunk_Choice
        [(''delta'', example_message), (''finish_reason'', PStr ''stop''), (''index'', PInt 0)]
      = Inr (Instance ''CompletionChunk.Choice''
               [(''delta'', example_message_instance), (''finish_reason'', PStr ''stop''),
                (''index'', PInt 0), (''logprobs'', PNone)]
               [''delta'', ''finish_reason'', ''index''])"
proof -
  let ?bad1 = "[(''message'', example_message), (''finish_reason'', PStr ''content_filter''),
             (''index'', PInt 0)]"
  let ?bad2 = "[(''delta'', example_message), (''finish_reason'', PStr ''content_filter''),
             (''index'', PInt 0)]"
  let ?good1 = "[(''message'', example_message), (''finish_reason'', PStr ''stop''),
             (''index'', PInt 0)]"
  let ?good2 = "[(''delta'', example_message), (''finish_reason'', PStr ''stop''),
             (''index'', PInt 0)]"
  have cf: "''content_filter'' \<notin> set finish_reasons" by (simp add: finish_reasons_def)
  have b1: "map_of ?bad1 ''finish_reason'' = Some (PStr ''content_filter'')" by simp
  have b2: "map_of ?bad2 ''finish_reason'' = Some (PStr ''content_filter'')" by simp
  from finish_reason_closed [of ?bad1 "''content_filter''" no_parse 0] b1 cf
  have r1: "\<exists>es. model_init no_parse Completion_Choice ?bad1 = Inl (ValidationError es)"
    by blast
  from finish_reason_closed [of ?bad2 "''content_filter''" no_parse 0] b2 cf
  have r2: "\<exists>es. model_init no_parse CompletionChunk_Choice ?bad2 = Inl (ValidationError es)"
    by blast
  have g1: "map_of ?good1 ''finish_reason'' = Some (PStr ''stop'')"
    "map_of ?good1 ''index'' = Some (PInt 0)" "map_of ?good1 ''logprobs'' = None"
    "map_of ?good1 ''message'' = Some example_message"
    by simp_all
  have g2: "map_of ?good2 ''finish_reason'' = Some (PStr ''stop'')"
    "map_of ?good2 ''index'' = Some (PInt 0)" "map_of ?good2 ''logprobs'' = None"
    "map_of ?good2 ''delta'' = Some example_message"
    by simp_all
  from finish_reason_closed [of ?good1 "''stop''" no_parse 0] g1 example_message_valid [of no_parse]
  have r3: "model_init no_parse Completion_Choice ?good1
      = Inr (Instance ''Completion.Choice''
               [(''message'', example_message_instance), (''finish_reason'', PStr ''stop''),
                (''index'', PInt 0), (''logprobs'', PNone)]
               [''message'', ''finish_reason'', ''index''])"
    by blast
  from finish_reason_closed [of ?good2 "''stop''" no_parse 0] g2 example_message_valid [of no_parse]
  have r4: "model_init no_parse CompletionChunk_Choice ?good2
      = Inr (Instance ''CompletionChunk.Choice''
               [(''delta'', example_message_instance), (''finish_reason'', PStr ''stop''),
                (''index'', PInt 0), (''logprobs'', PNone)]
               [''delta'', ''finish_reason'', ''index''])"
    by blast
  from r1 r2 r3 r4 show ?thesis by blast
qed


section \<open>Required fields of a streamed choice\<close>



section \<open>Constructing an \<^verbatim>\<open>Embedding\<close>\<close>

lemma validate_items_floats:
  "validate_items L TFloat n (map PFloat xs) = ([], map PFloat xs)"
  by (induction xs arbitrary: n) (auto simp: validate_float_def)

lemma validate_items_ok:
  "validate_items L a n vs = ([], ws) \<Longrightarrow> v \<in> set vs \<Longrightarrow> \<exists>w. validate L a v = Inr w"
proof (induction vs arbitrary: n ws)
  case Nil
  then show ?case by simp
next
  case (Cons x xs)
  obtain es0 ws0 where r: "validate_items L a (Suc n) xs = (es0, ws0)"
    by (cases "validate_items L a (Suc n) xs")
  show ?case
  proof (cases "validate L a x")
    case (Inl e)
    with validate_no_empty_error [of L a x] have "e \<noteq> []" by auto
    with Cons.prems(1) r Inl show ?thesis by simp
  next
    case (Inr w)
    with Cons.prems(1) r have "es0 = []" by simp
    with Cons.IH [of "Suc n" ws0] r Cons.prems(2) Inr show ?thesis by auto
  qed
qed

lemma validate_values_any: "validate_values L TAny d = ([], d)"
  by (induction d) auto

lemma validate_list_Inr:
  "validate L (TList a) v = Inr w \<Longrightarrow>
   \<exists>vs ws. v = PList vs \<and> validate_items L a 0 vs = ([], ws) \<and> w = PList ws"
  by (cases v) (auto split: prod.splits list.splits)

text \<open>
  Claim C8, as the code has it. Constructing an \<^verbatim>\<open>Embedding\<close> succeeds only if \<^verbatim>\<open>embedding\<close>
  is a list whose items all pass the float validator, \<^verbatim>\<open>index\<close> passes the integer
  validator, and \<^verbatim>\<open>object\<close> is the literal \<open>embedding\<close>; and it succeeds whenever \<^verbatim>\<open>embedding\<close>
  is a list of floats, finite or not, \<^verbatim>\<open>index\<close> is an integer of either sign and \<^verbatim>\<open>object\<close>
  is that literal.
\<close>

theorem embedding_construction:
  "(model_init L Embedding kwargs = Inr m \<longrightarrow>
      (\<exists>vs. map_of kwargs ''embedding'' = Some (PList vs) \<and>
            (\<forall>v \<in> set vs. \<exists>w. validate_float L v = Inr w)) \<and>
      (\<exists>v w. map_of kwargs ''index'' = Some v \<and> validate_int L v = Inr w) \<and>
      map_of kwargs ''object'' = Some (PStr ''embedding''))
   \<and> (map_of kwargs ''embedding'' = Some (PList (map PFloat xs)) \<and>
      map_of kwargs ''index'' = Some (PInt i) \<and>
      map_of kwargs ''object'' = Some (PStr ''embedding'') \<longrightarrow>
      model_init L Embedding kwargs =
        Inr (Instance ''Embedding''
               [(''embedding'', PList (map PFloat xs)), (''index'', PInt i),
                (''object'', PStr ''embedding'')]
               [''embedding'', ''index'', ''object'']))"
proof -
  let ?e = "Fld ''embedding'' (TList TFloat) PydanticUndefined"
  let ?i = "Fld ''index'' TInt PydanticUndefined"
  let ?o = "Fld ''object'' (TLiteral [''embedding'']) PydanticUndefined"
  have fe: "find_field (model_fields Embedding) ''embedding'' = Some ?e"
    and fi: "find_field (model_fields Embedding) ''index'' = Some ?i"
    and fo: "find_field (model_fields Embedding) ''object'' = Some ?o"
    by (simp_all add: Embedding_def)
  have nec: "(\<exists>vs. map_of kwargs ''embedding'' = Some (PList vs) \<and>
            (\<forall>v \<in> set vs. \<exists>w. validate_float L v = Inr w)) \<and>
      (\<exists>v w. map_of kwargs ''index'' = Some v \<and> validate_int L v = Inr w) \<and>
      map_of kwargs ''object'' = Some (PStr ''embedding'')"
    if init: "model_init L Embedding kwargs = Inr m"
  proof -
    from model_init_Inr [OF init] obtain d s
      where vf: "validate_fields L (model_fields Embedding) kwargs = ([], d, s)" by blast
    have sup: "\<exists>v. map_of kwargs k = Some v"
      if "find_field (model_fields Embedding) k = Some f" "fdefault f = PydanticUndefined"
      for k f
      using validate_fields_absent [OF vf that(1)] that(2) by (cases "map_of kwargs k") auto
    from sup [OF fe] obtain ve where ve: "map_of kwargs ''embedding'' = Some ve" by auto
    from sup [OF fi] obtain vi where vi: "map_of kwargs ''index'' = Some vi" by auto
    from sup [OF fo] obtain vo where vo: "map_of kwargs ''object'' = Some vo" by auto
    from validate_fields_supplied [OF vf fe ve]
    obtain we where "validate L (TList TFloat) ve = Inr we" by auto
    from validate_list_Inr [OF this] obtain vs ws
      where vs: "ve = PList vs" "validate_items L TFloat 0 vs = ([], ws)" by blast
    from validate_items_ok [OF vs(2)]
    have items: "\<forall>v \<in> set vs. \<exists>w. validate_float L v = Inr w" by simp
    from validate_fields_supplied [OF vf fi vi]
    have int: "\<exists>w. validate_int L vi = Inr w" by auto
    from validate_fields_supplied [OF vf fo vo]
    have "\<exists>w. validate_literal [''embedding''] vo = Inr w" by auto
    then have "vo = PStr ''embedding''"
      by (cases vo) (auto simp: validate_literal_def split: if_splits)
    with ve vs(1) items vi int vo show ?thesis by blast
  qed
  have suf: "model_init L Embedding kwargs =
        Inr (Instance ''Embedding''
               [(''embedding'', PList (map PFloat xs)), (''index'', PInt i),
                (''object'', PStr ''embedding'')]
               [''embedding'', ''index'', ''object''])"
    if "map_of kwargs ''embedding'' = Some (PList (map PFloat xs))"
      "map_of kwargs ''index'' = Some (PInt i)"
      "map_of kwargs ''object'' = Some (PStr ''embedding'')"
    using that
    by (simp add: model_init_def Embedding_def field_present_def validate_items_floats
          validate_int_def validate_literal_def)
  from nec suf show ?thesis by blast
qed


theorem embedding_construction_witness:
  "map_of [(''embedding'', PList (map PFloat [Finite (1 / 4), Finite 2])), (''index'', PInt 7),
           (''object'', PStr ''embedding'')] ''object'' = Some (PStr ''embedding'')
   \<and> model_init no_parse Embedding
        [(''embedding'', PList (map PFloat [Finite (1 / 4), Finite 2])), (''index'', PInt 7),
         (''object'', PStr ''embedding'')]
      = Inr (Instance ''Embedding''
               [(''embedding'', PList (map PFloat [Finite (1 / 4), Finite 2])), (''index'', PInt 7),
                (''object'', PStr ''embedding'')]
               [''embedding'', ''index'', ''object''])
   \<and> (\<exists>vs. map_of [(''embedding'', PList (map PFloat [Finite (1 / 4), Finite 2])),
                    (''index'', PInt 7), (''object'', PStr ''embedding'')] ''embedding''
              = Some (PList vs))"
proof -
  let ?kw = "[(''embedding'', PList (map PFloat [Finite (1 / 4), Finite 2])), (''index'', PInt 7),
           (''object'', PStr ''embedding'')]"
  let ?m = "Instance ''Embedding''
               [(''embedding'', PList (map PFloat [Finite (1 / 4), Finite 2])), (''index'', PInt 7),
                (''object'', PStr ''embedding'')]
               [''embedding'', ''index'', ''object'']"
  have h: "map_of ?kw ''embedding'' = Some (PList (map PFloat [Finite (1 / 4), Finite 2]))"
    "map_of ?kw ''index'' = Some (PInt 7)" "map_of ?kw ''object'' = Some (PStr ''embedding'')"
    by simp_all
  from embedding_construction [of no_parse ?kw ?m "[Finite (1 / 4), Finite 2]" 7] h
  have i: "model_init no_parse Embedding ?kw = Inr ?m" by blast
  from embedding_construction [of no_parse ?kw ?m "[Finite (1 / 4), Finite 2]" 7] i
  have "\<exists>vs. map_of ?kw ''embedding'' = Some (PList vs)" by blast
  with h(3) i show ?thesis by blast
qed

text \<open>
  The claim as stated fails: an infinity, a NaN and the index \<open>-1\<close> are accepted.
\<close>

theorem embedding_counterexample:
  "model_init no_parse Embedding
     [(''embedding'', PList [PFloat PosInf, PFloat NaN]), (''index'', PInt (- 1)),
      (''object'', PStr ''embedding'')]
   = Inr (Instance ''Embedding''
            [(''embedding'', PList [PFloat PosInf, PFloat NaN]), (''index'', PInt (- 1)),
             (''object'', PStr ''embedding'')]
            [''embedding'', ''index'', ''object''])"
  by (simp add: model_init_def Embedding_def field_present_def validate_float_def
        validate_int_def validate_literal_def)

section \<open>Content parts\<close>

lemma validate_typeddict_Inr:
  "validate L (TTypedDict n fs) (PDict d) = Inr w \<Longrightarrow>
   \<exists>d' s. validate_fields L fs d = ([], d', s) \<and> w = PDict d'"
  by (auto split: prod.splits list.splits)

lemma validate_typeddict_field_error:
  assumes "find_field fs k = Some f" and "map_of d k = Some v"
    and "validate L (fann f) v = Inl e"
  shows "\<exists>es. validate L (TTypedDict n fs) (PDict d) = Inl es"
proof (cases "validate L (TTypedDict n fs) (PDict d)")
  case (Inr w)
  from validate_typeddict_Inr [OF this] obtain d' s
    where "validate_fields L fs d = ([], d', s)" by blast
  from validate_fields_supplied [OF this assms(1,2)] assms(3) show ?thesis by auto
qed auto

lemma validate_typeddict_missing:
  assumes "find_field fs k = Some f" and "map_of d k = None"
    and "fdefault f = PydanticUndefined"
  shows "\<exists>es. validate L (TTypedDict n fs) (PDict d) = Inl es"
proof (cases "validate L (TTypedDict n fs) (PDict d)")
  case (Inr w)
  from validate_typeddict_Inr [OF this] obtain d' s
    where "validate_fields L fs d = ([], d', s)" by blast
  from validate_fields_absent [OF this assms(1,2)] assms(3) show ?thesis by auto
qed auto

text \<open>A typed dict whose required literal key \<open>k\<close> is absent or holds another value fails.\<close>

lemma typeddict_literal_key:
  assumes "find_field fs k = Some (Fld k (TLiteral ls) PydanticUndefined)"
    and "\<forall>s. map_of d k = Some (PStr s) \<longrightarrow> s \<notin> set ls"
  shows "\<exists>es. validate L (TTypedDict n fs) (PDict d) = Inl es"
proof (cases "map_of d k")
  case None
  from validate_typeddict_missing [OF assms(1) None] show ?thesis by simp
next
  case (Some v)
  with assms(2) have "\<exists>e. validate L (fann (Fld k (TLiteral ls) PydanticUndefined)) v = Inl e"
    by (cases v) (auto simp: validate_literal_def)
  then obtain e where "validate L (fann (Fld k (TLiteral ls) PydanticUndefined)) v = Inl e" ..
  from validate_typeddict_field_error [OF assms(1) Some this] show ?thesis .
qed

lemma image_part_type:
  "\<forall>s. map_of d ''type'' = Some (PStr s) \<longrightarrow> s \<noteq> ''image_url'' \<Longrightarrow>
   \<exists>es. validate L MessageContentImagePart (PDict d) = Inl es"
  unfolding MessageContentImagePart_def
  by (rule typeddict_literal_key [where k = "''type''" and ls = "[''image_url'']"]) simp_all

lemma audio_part_type:
  "\<forall>s. map_of d ''type'' = Some (PStr s) \<longrightarrow> s \<noteq> ''input_audio'' \<Longrightarrow>
   \<exists>es. validate L MessageContentAudioPart (PDict d) = Inl es"
  unfolding MessageContentAudioPart_def
  by (rule typeddict_literal_key [where k = "''type''" and ls = "[''input_audio'']"]) simp_all

lemma text_part_type:
  "\<forall>s. map_of d ''type'' = Some (PStr s) \<longrightarrow> s \<noteq> ''text'' \<Longrightarrow>
   \<exists>es. validate L MessageContentTextPart (PDict d) = Inl es"
  unfolding MessageContentTextPart_def
  by (rule typeddict_literal_key [where k = "''type''" and ls = "[''text'']"]) simp_all

lemma image_part_payload:
  "map_of d ''image_url'' = None \<Longrightarrow> \<exists>es. validate L MessageContentImagePart (PDict d) = Inl es"
  unfolding MessageContentImagePart_def
  by (rule validate_typeddict_missing
         [where k = "''image_url''" and f = "Fld ''image_url'' (TDict TAny) PydanticUndefined"])
       simp_all

lemma audio_part_payload:
  "map_of d ''input_audio'' = None \<Longrightarrow> \<exists>es. validate L MessageContentAudioPart (PDict d) = Inl es"
  unfolding MessageContentAudioPart_def
  by (rule validate_typeddict_missing
         [where k = "''input_audio''" and f = "Fld ''input_audio'' (TDict TAny) PydanticUndefined"])
       simp_all

lemma text_part_payload:
  "map_of d ''text'' = None \<Longrightarrow> \<exists>es. validate L MessageContentTextPart (PDict d) = Inl es"
  unfolding MessageContentTextPart_def
  by (rule validate_typeddict_missing
         [where k = "''text''" and f = "Fld ''text'' TStr PydanticUndefined"])
       simp_all

lemma content_part_all_fail:
  assumes "\<exists>es. validate L MessageContentImagePart v = Inl es"
    and "\<exists>es. validate L MessageContentAudioPart v = Inl es"
    and "\<exists>es. validate L MessageContentTextPart v = Inl es"
  shows "\<exists>es. validate L MessageContentPart v = Inl es"
  using assms by (auto simp: MessageContentPart_def)

lemma image_part_ok:
  "map_of d ''type'' = Some (PStr ''image_url'') \<Longrightarrow> map_of d ''image_url'' = Some (PDict u) \<Longrightarrow>
   validate L MessageContentImagePart (PDict d) =
     Inr (PDict [(''image_url'', PDict u), (''type'', PStr ''image_url'')])"
  by (simp add: MessageContentImagePart_def field_present_def validate_values_any
        validate_literal_def)

lemma audio_part_ok:
  "map_of d ''type'' = Some (PStr ''input_audio'') \<Longrightarrow> map_of d ''input_audio'' = Some (PDict u) \<Longrightarrow>
   validate L MessageContentAudioPart (PDict d) =
     Inr (PDict [(''input_audio'', PDict u), (''type'', PStr ''input_audio'')])"
  by (simp add: MessageContentAudioPart_def field_present_def validate_values_any
        validate_literal_def)

lemma text_part_ok:
  "map_of d ''type'' = Some (PStr ''text'') \<Longrightarrow> map_of d ''text'' = Some (PStr t) \<Longrightarrow>
   validate L MessageContentTextPart (PDict d) =
     Inr (PDict [(''text'', PStr t), (''type'', PStr ''text'')])"
  by (simp add: MessageContentTextPart_def field_present_def validate_str_def
        validate_literal_def)

text \<open>
  Claim C2, as the code has it. Constructing a content part of any of the three classes
  never fails and returns the dict as given, whatever its \<^verbatim>\<open>type\<close> and payload: a
  \<^verbatim>\<open>TypedDict\<close> checks nothing when it is built. The declaration decides only where a
  validator enforces \<^verbatim>\<open>MessageContentPart\<close> on the dict: there each of the three literals
  with its payload key validates, and a \<^verbatim>\<open>type\<close> outside the three literals, or the payload
  key of the declared type missing, is rejected.
\<close>

theorem content_part_construction:
  "typeddict_init MessageContentTextPart kwargs = Inr (PDict kwargs)
   \<and> typeddict_init MessageContentImagePart kwargs = Inr (PDict kwargs)
   \<and> typeddict_init MessageContentAudioPart kwargs = Inr (PDict kwargs)
   \<and> (map_of d ''type'' = Some (PStr ''text'') \<and> map_of d ''text'' = Some (PStr t) \<longrightarrow>
        validate L MessageContentPart (PDict d) =
          Inr (PDict [(''text'', PStr t), (''type'', PStr ''text'')]))
   \<and> (map_of d ''type'' = Some (PStr ''image_url'') \<and> map_of d ''image_url'' = Some (PDict u) \<longrightarrow>
        validate L MessageContentPart (PDict d) =
          Inr (PDict [(''image_url'', PDict u), (''type'', PStr ''image_url'')]))
   \<and> (map_of d ''type'' = Some (PStr ''input_audio'') \<and> map_of d ''input_audio'' = Some (PDict u) \<longrightarrow>
        validate L MessageContentPart (PDict d) =
          Inr (PDict [(''input_audio'', PDict u), (''type'', PStr ''input_audio'')]))
   \<and> ((\<forall>s. map_of d ''type'' = Some (PStr s) \<longrightarrow>
            s \<notin> {''text'', ''image_url'', ''input_audio''}) \<longrightarrow>
        (\<exists>es. validate L MessageContentPart (PDict d) = Inl es))
   \<and> ((map_of d ''type'' = Some (PStr ''text'') \<and> map_of d ''text'' = None)
        \<or> (map_of d ''type'' = Some (PStr ''image_url'') \<and> map_of d ''image_url'' = None)
        \<or> (map_of d ''type'' = Some (PStr ''input_audio'') \<and> map_of d ''input_audio'' = None) \<longrightarrow>
        (\<exists>es. validate L MessageContentPart (PDict d) = Inl es))"
proof -
  have ok_text: "validate L MessageContentPart (PDict d) =
          Inr (PDict [(''text'', PStr t), (''type'', PStr ''text'')])"
    if h: "map_of d ''type'' = Some (PStr ''text'')" "map_of d ''text'' = Some (PStr t)"
  proof -
    from h(1) image_part_type [of d L] audio_part_type [of d L]
    obtain e1 e2 where "validate L MessageContentImagePart (PDict d) = Inl e1"
      "validate L MessageContentAudioPart (PDict d) = Inl e2" by auto
    with text_part_ok [OF h, of L] show ?thesis by (simp add: MessageContentPart_def)
  qed
  have ok_image: "validate L MessageContentPart (PDict d) =
          Inr (PDict [(''image_url'', PDict u), (''type'', PStr ''image_url'')])"
    if h: "map_of d ''type'' = Some (PStr ''image_url'')" "map_of d ''image_url'' = Some (PDict u)"
    using image_part_ok [OF h, of L] by (simp add: MessageContentPart_def)
  have ok_audio: "validate L MessageContentPart (PDict d) =
          Inr (PDict [(''input_audio'', PDict u), (''type'', PStr ''input_audio'')])"
    if h: "map_of d ''type'' = Some (PStr ''input_audio'')"
      "map_of d ''input_audio'' = Some (PDict u)"
  proof -
    from h(1) image_part_type [of d L]
    obtain e1 where "validate L MessageContentImagePart (PDict d) = Inl e1" by auto
    with audio_part_ok [OF h, of L] show ?thesis by (simp add: MessageContentPart_def)
  qed
  have other: "\<exists>es. validate L MessageContentPart (PDict d) = Inl es"
    if "\<forall>s. map_of d ''type'' = Some (PStr s) \<longrightarrow> s \<notin> {''text'', ''image_url'', ''input_audio''}"
    using that
    by (intro content_part_all_fail image_part_type audio_part_type text_part_type) auto
  have missing: "\<exists>es. validate L MessageContentPart (PDict d) = Inl es"
    if h: "(map_of d ''type'' = Some (PStr ''text'') \<and> map_of d ''text'' = None)
        \<or> (map_of d ''type'' = Some (PStr ''image_url'') \<and> map_of d ''image_url'' = None)
        \<or> (map_of d ''type'' = Some (PStr ''input_audio'') \<and> map_of d ''input_audio'' = None)"
  proof -
    consider (t) "map_of d ''type'' = Some (PStr ''text'')" "map_of d ''text'' = None"
      | (i) "map_of d ''type'' = Some (PStr ''image_url'')" "map_of d ''image_url'' = None"
      | (a) "map_of d ''type'' = Some (PStr ''input_audio'')" "map_of d ''input_audio'' = None"
      using h by auto
    then show ?thesis
    proof cases
      case t
      show ?thesis
        by (rule content_part_all_fail [OF image_part_type audio_part_type text_part_payload])
           (use t in auto)
    next
      case i
      show ?thesis
        by (rule content_part_all_fail [OF image_part_payload audio_part_type text_part_type])
           (use i in auto)
    next
      case a
      show ?thesis
        by (rule content_part_all_fail [OF image_part_type audio_part_payload text_part_type])
           (use a in auto)
    qed
  qed
  from ok_text ok_image ok_audio other missing show ?thesis
    by (simp add: typeddict_init_def)
qed


theorem content_part_construction_witness:
  "validate no_parse MessageContentPart (PDict [(''type'', PStr ''text''), (''text'', PStr ''hello'')])
     = Inr (PDict [(''text'', PStr ''hello''), (''type'', PStr ''text'')])
   \<and> validate no_parse MessageContentPart
       (PDict [(''type'', PStr ''image_url''), (''image_url'', PDict [(''url'', PStr ''u'')])])
     = Inr (PDict [(''image_url'', PDict [(''url'', PStr ''u'')]), (''type'', PStr ''image_url'')])
   \<and> validate no_parse MessageContentPart
       (PDict [(''type'', PStr ''input_audio''), (''input_audio'', PDict [(''data'', PStr ''x'')])])
     = Inr (PDict [(''input_audio'', PDict [(''data'', PStr ''x'')]), (''type'', PStr ''input_audio'')])
   \<and> (\<exists>es. validate no_parse MessageContentPart
              (PDict [(''type'', PStr ''video''), (''text'', PStr ''hello'')]) = Inl es)
   \<and> (\<exists>es. validate no_parse MessageContentPart (PDict [(''type'', PStr ''text'')]) = Inl es)
   \<and> typeddict_init MessageContentTextPart [(''type'', PStr ''text''), (''text'', PStr ''hello'')]
     = Inr (PDict [(''type'', PStr ''text''), (''text'', PStr ''hello'')])"
proof -
  note T = content_part_construction
  have "validate no_parse MessageContentPart (PDict [(''type'', PStr ''text''), (''text'', PStr ''hello'')])
     = Inr (PDict [(''text'', PStr ''hello''), (''type'', PStr ''text'')])"
    using T [of _ "[(''type'', PStr ''text''), (''text'', PStr ''hello'')]" "''hello''" no_parse]
    by simp
  moreover have "validate no_parse MessageContentPart
       (PDict [(''type'', PStr ''image_url''), (''image_url'', PDict [(''url'', PStr ''u'')])])
     = Inr (PDict [(''image_url'', PDict [(''url'', PStr ''u'')]), (''type'', PStr ''image_url'')])"
    using T [of _ "[(''type'', PStr ''image_url''), (''image_url'', PDict [(''url'', PStr ''u'')])]"
               _ no_parse "[(''url'', PStr ''u'')]"]
    by simp
  moreover have "validate no_parse MessageContentPart
       (PDict [(''type'', PStr ''input_audio''), (''input_audio'', PDict [(''data'', PStr ''x'')])])
     = Inr (PDict [(''input_audio'', PDict [(''data'', PStr ''x'')]), (''type'', PStr ''input_audio'')])"
    using T [of _ "[(''type'', PStr ''input_audio''), (''input_audio'', PDict [(''data'', PStr ''x'')])]"
               _ no_parse "[(''data'', PStr ''x'')]"]
    by simp
  moreover have "\<exists>es. validate no_parse MessageContentPart
              (PDict [(''type'', PStr ''video''), (''text'', PStr ''hello'')]) = Inl es"
    using T [of _ "[(''type'', PStr ''video''), (''text'', PStr ''hello'')]" _ no_parse]
    by simp
  moreover have "\<exists>es. validate no_parse MessageContentPart (PDict [(''type'', PStr ''text'')]) = Inl es"
    using T [of _ "[(''type'', PStr ''text'')]" _ no_parse]
    by simp
  moreover have "typeddict_init MessageContentTextPart [(''type'', PStr ''text''), (''text'', PStr ''hello'')]
     = Inr (PDict [(''type'', PStr ''text''), (''text'', PStr ''hello'')])"
    using T [of "[(''type'', PStr ''text''), (''text'', PStr ''hello'')]"]
    by simp
  ultimately show ?thesis by blast
qed

text \<open>
  The claim as stated fails: a text part with the type \<open>video\<close> and an image part without
  its \<^verbatim>\<open>image_url\<close> are both constructed.
\<close>

theorem content_part_counterexample:
  "typeddict_init MessageContentTextPart [(''type'', PStr ''video''), (''text'', PStr ''hello'')]
     = Inr (PDict [(''type'', PStr ''video''), (''text'', PStr ''hello'')])
   \<and> typeddict_init MessageContentImagePart [(''type'', PStr ''image_url'')]
     = Inr (PDict [(''type'', PStr ''image_url'')])"
  by (simp add: typeddict_init_def)

section \<open>The parameters of a \<^verbatim>\<open>Function\<close>\<close>

text \<open>
  Claim C7, as the code has it. Constructing a \<^verbatim>\<open>Function\<close> never fails and returns the
  dict as given, whatever \<^verbatim>\<open>parameters\<close> is. Where a validator enforces the declaration on
  the dict, \<^verbatim>\<open>parameters\<close> given as a key/value object is accepted unchanged, whatever it
  contains, and \<^verbatim>\<open>parameters\<close> given as anything else is rejected.
\<close>

theorem function_parameters:
  "typeddict_init Function kwargs = Inr (PDict kwargs)
   \<and> (map_of d ''name'' = Some (PStr n) \<and> map_of d ''description'' = Some (PStr ds) \<and>
      map_of d ''parameters'' = Some (PDict p) \<and> map_of d ''strict'' = None \<longrightarrow>
        validate L Function (PDict d) =
          Inr (PDict [(''name'', PStr n), (''description'', PStr ds), (''parameters'', PDict p)]))
   \<and> (map_of d ''parameters'' = Some v \<and> (\<forall>q. v \<noteq> PDict q) \<longrightarrow>
        (\<exists>es. validate L Function (PDict d) = Inl es))"
proof -
  have ok: "validate L Function (PDict d) =
          Inr (PDict [(''name'', PStr n), (''description'', PStr ds), (''parameters'', PDict p)])"
    if "map_of d ''name'' = Some (PStr n)" "map_of d ''description'' = Some (PStr ds)"
      "map_of d ''parameters'' = Some (PDict p)" "map_of d ''strict'' = None"
    using that
    by (simp add: Function_def FunctionParameters_def field_present_def field_absent_def
          validate_str_def validate_values_any)
  have bad: "\<exists>es. validate L Function (PDict d) = Inl es"
    if h: "map_of d ''parameters'' = Some v" "\<forall>q. v \<noteq> PDict q"
  proof -
    let ?f = "Fld ''parameters'' FunctionParameters PydanticUndefined"
    have ff: "find_field (model_fields Function) ''parameters'' = Some ?f"
      by (simp add: Function_def)
    from h(2) have "validate L (fann ?f) v = Inl [([], ''dict_type'')]"
      by (cases v) (simp_all add: FunctionParameters_def)
    from validate_typeddict_field_error [OF ff h(1) this, of "''Function''"]
    show ?thesis by (simp add: Function_def)
  qed
  from ok bad show ?thesis by (simp add: typeddict_init_def)
qed


theorem function_parameters_witness:
  "typeddict_init Function
      [(''name'', PStr ''f''), (''description'', PStr ''d''),
       (''parameters'', PDict [(''type'', PInt 42)])]
     = Inr (PDict [(''name'', PStr ''f''), (''description'', PStr ''d''),
                   (''parameters'', PDict [(''type'', PInt 42)])])
   \<and> validate no_parse Function
        (PDict [(''name'', PStr ''f''), (''description'', PStr ''d''),
                (''parameters'', PDict [(''type'', PInt 42)])])
     = Inr (PDict [(''name'', PStr ''f''), (''description'', PStr ''d''),
                   (''parameters'', PDict [(''type'', PInt 42)])])
   \<and> (\<exists>es. validate no_parse Function
              (PDict [(''name'', PStr ''f''), (''description'', PStr ''d''),
                      (''parameters'', PList [])]) = Inl es)"
proof -
  note T = function_parameters
  have "typeddict_init Function
      [(''name'', PStr ''f''), (''description'', PStr ''d''),
       (''parameters'', PDict [(''type'', PInt 42)])]
     = Inr (PDict [(''name'', PStr ''f''), (''description'', PStr ''d''),
                   (''parameters'', PDict [(''type'', PInt 42)])])"
    using T [of "[(''name'', PStr ''f''), (''description'', PStr ''d''),
       (''parameters'', PDict [(''type'', PInt 42)])]"]
    by simp
  moreover have "validate no_parse Function
        (PDict [(''name'', PStr ''f''), (''description'', PStr ''d''),
                (''parameters'', PDict [(''type'', PInt 42)])])
     = Inr (PDict [(''name'', PStr ''f''), (''description'', PStr ''d''),
                   (''parameters'', PDict [(''type'', PInt 42)])])"
    using T [of _ "[(''name'', PStr ''f''), (''description'', PStr ''d''),
                (''parameters'', PDict [(''type'', PInt 42)])]" "''f''" "''d''"
                "[(''type'', PInt 42)]" no_parse]
    by simp
  moreover have "\<exists>es. validate no_parse Function
              (PDict [(''name'', PStr ''f''), (''description'', PStr ''d''),
                      (''parameters'', PList [])]) = Inl es"
    using T [of _ "[(''name'', PStr ''f''), (''description'', PStr ''d''),
                      (''parameters'', PList [])]" _ _ _ no_parse "PList []"]
    by simp
  ultimately show ?thesis by blast
qed

text \<open>
  The claim as stated fails: a \<^verbatim>\<open>Function\<close> is constructed with the scalar 5, and
  with a list, as its \<^verbatim>\<open>parameters\<close>.
\<close>

theorem function_parameters_counterexample:
  "typeddict_init Function
      [(''name'', PStr ''f''), (''description'', PStr ''d''), (''parameters'', PInt 5)]
     = Inr (PDict [(''name'', PStr ''f''), (''description'', PStr ''d''), (''parameters'', PInt 5)])
   \<and> typeddict_init Function
      [(''name'', PStr ''f''), (''description'', PStr ''d''), (''parameters'', PList [PStr ''x''])]
     = Inr (PDict [(''name'', PStr ''f''), (''description'', PStr ''d''),
                   (''parameters'', PList [PStr ''x''])])"
  by (simp add: typeddict_init_def)

section \<open>Round trip\<close>





















end
